theory Spec2Isabelle
  imports Main "HOL-Library.Sublist"
begin

section \<open>Data model\<close>

text \<open>
  The multimodal chat backend: \<^verbatim>\<open>llm_service.py\<close> (Context Builder and Turn
  Dispatcher), \<^verbatim>\<open>file_handler.py\<close> (Blob Store) and \<^verbatim>\<open>main.py\<close> (Session
  Orchestrator). Python strings are \<open>string\<close>, Python integers are \<open>int\<close>, an
  \<^verbatim>\<open>Optional[str]\<close> is a \<open>string option\<close>, and an exception that a function raises
  is the \<open>Inl\<close> of its result.
\<close>

text \<open>A decoded \<^verbatim>\<open>PIL.Image.Image\<close>, identified by its pixel data.\<close>

datatype pil_image = PIL_Image string

text \<open>A persisted \<^verbatim>\<open>Message\<close> row, with the columns that \<^verbatim>\<open>schemas.MessageResponse\<close>
  and the code read. Record fields are global names, so \<^verbatim>\<open>id\<close> and \<^verbatim>\<open>session_id\<close>
  carry a prefix.\<close>

record message =
  msg_id :: int
  msg_session_id :: int
  role :: string
  content :: string
  image_path :: "string option"

text \<open>One part of a turn: a decoded image or a text.\<close>

datatype part = ImagePart pil_image | TextPart string

text \<open>The dictionary \<^verbatim>\<open>{"role": role, "parts": parts}\<close> that the builder appends.\<close>

record turn =
  turn_role :: string
  parts :: "part list"

text \<open>The files on disk: a path has bytes or is absent.\<close>

type_synonym filesystem = "string \<rightharpoonup> string"

text \<open>The provider's response object. Its \<^verbatim>\<open>text\<close> accessor belongs to the provider's
  library: it returns a string (\<open>Inr\<close>) or raises (\<open>Inl\<close>, with the \<^verbatim>\<open>str\<close> of the
  exception), as it does when the response holds no text part.\<close>

datatype response = Response (response_text: "string + string")

text \<open>
  What the code takes from outside the repository, read once per request:
  \<^item> \<open>image_open\<close>: \<^verbatim>\<open>PIL.Image.open\<close> on the bytes of a file, an image or the
    \<^verbatim>\<open>str\<close> of the exception raised;
  \<^item> \<open>gemini\<close>: \<^verbatim>\<open>model.start_chat(history=...)\<close> followed by \<^verbatim>\<open>chat.send_message(parts)\<close>,
    a response or the \<^verbatim>\<open>str\<close> of the exception raised;
  \<^item> \<open>uuid4\<close>: the string of the \<^verbatim>\<open>uuid.uuid4()\<close> drawn for an upload;
  \<^item> \<open>utcnow\<close>: the reading of \<^verbatim>\<open>datetime.utcnow()\<close>;
  \<^item> \<open>write_error\<close>: the \<^verbatim>\<open>str\<close> of the exception raised while the upload is written
    to disk, if one is raised.
\<close>

record env =
  image_open :: "string \<Rightarrow> string + pil_image"
  gemini :: "turn list \<Rightarrow> part list \<Rightarrow> string + response"
  uuid4 :: string
  utcnow :: nat
  write_error :: "string option"

section \<open>llm\_service.py\<close>

text \<open>\<^verbatim>\<open>os.path.exists\<close>: the empty path never exists.\<close>

definition os_path_exists :: "filesystem \<Rightarrow> string \<Rightarrow> bool" where
  "os_path_exists fs p = (p \<noteq> [] \<and> fs p \<noteq> None)"

text \<open>\<^verbatim>\<open>load_image\<close>: \<^verbatim>\<open>Image.open(image_path)\<close>, which raises on an absent file and
  on bytes it cannot identify.\<close>

definition load_image :: "env \<Rightarrow> filesystem \<Rightarrow> string \<Rightarrow> string + pil_image" where
  "load_image e fs p =
     (case fs p of
        None \<Rightarrow> Inl ''FileNotFoundError''
      | Some bytes \<Rightarrow> image_open e bytes)"

text \<open>
  The block under \<^verbatim>\<open># Add image if present\<close>, written twice in the source (for a
  history message and for the current message): it appends the image to the parts when
  the path is truthy, exists and loads, and leaves the parts as they are when the load
  raises (the exception is printed and swallowed).
\<close>

definition add_image_if_present ::
  "env \<Rightarrow> filesystem \<Rightarrow> string option \<Rightarrow> part list \<Rightarrow> part list" where
  "add_image_if_present e fs ip ps =
     (case ip of
        None \<Rightarrow> ps
      | Some p \<Rightarrow>
          if p \<noteq> [] \<and> os_path_exists fs p then
            (case load_image e fs p of
               Inr img \<Rightarrow> ps @ [ImagePart img]
             | Inl err \<Rightarrow> ps)
          else ps)"

text \<open>The body of the \<^verbatim>\<open>for\<close> loop of \<^verbatim>\<open>build_message_history\<close>: the turn of one
  message.\<close>

definition history_turn :: "env \<Rightarrow> filesystem \<Rightarrow> message \<Rightarrow> turn" where
  "history_turn e fs msg =
     (let role' = (if role msg = ''assistant'' then ''model'' else ''user'');
          ps = [];
          ps = add_image_if_present e fs (image_path msg) ps;
          ps = ps @ [TextPart (content msg)]
      in \<lparr>turn_role = role', parts = ps\<rparr>)"

text \<open>The loop itself, over the messages left to visit, with the list \<^verbatim>\<open>messages\<close>
  built so far.\<close>

fun build_loop :: "env \<Rightarrow> filesystem \<Rightarrow> message list \<Rightarrow> turn list \<Rightarrow> turn list" where
  "build_loop e fs [] messages = messages"
| "build_loop e fs (msg # rest) messages =
     build_loop e fs rest (messages @ [history_turn e fs msg])"

text \<open>\<^verbatim>\<open>build_message_history\<close>: the loop runs over \<^verbatim>\<open>chat_history[:-1]\<close>, which is
  empty for an empty list.\<close>

definition build_message_history :: "env \<Rightarrow> filesystem \<Rightarrow> message list \<Rightarrow> turn list" where
  "build_message_history e fs chat_history = build_loop e fs (butlast chat_history) []"

text \<open>Line 79 of \<^verbatim>\<open>process_chat_message\<close>: the history turns, empty when
  \<^verbatim>\<open>chat_history\<close> is \<^verbatim>\<open>None\<close> or an empty list.\<close>

definition history_turns :: "env \<Rightarrow> filesystem \<Rightarrow> message list option \<Rightarrow> turn list" where
  "history_turns e fs chat_history =
     (case chat_history of
        None \<Rightarrow> []
      | Some h \<Rightarrow> if h \<noteq> [] then build_message_history e fs h else [])"

text \<open>Lines 82 to 93: the parts of the current message.\<close>

definition current_parts :: "env \<Rightarrow> filesystem \<Rightarrow> string \<Rightarrow> string option \<Rightarrow> part list" where
  "current_parts e fs text ip =
     (let ps = [];
          ps = add_image_if_present e fs ip ps;
          ps = ps @ [TextPart text]
      in ps)"

text \<open>\<^verbatim>\<open>process_chat_message\<close>: the reply text, or the message of the
  \<^verbatim>\<open>Exception\<close> raised by the \<^verbatim>\<open>except\<close> clause around the whole body.\<close>

definition process_chat_message ::
  "env \<Rightarrow> filesystem \<Rightarrow> string \<Rightarrow> string option \<Rightarrow> message list option \<Rightarrow> string + string" where
  "process_chat_message e fs text ip chat_history =
     (let history = history_turns e fs chat_history;
          cur = current_parts e fs text ip
      in case gemini e history cur of
           Inl err \<Rightarrow> Inl (''Error calling Gemini API: '' @ err)
         | Inr resp \<Rightarrow>
             (case response_text resp of
                Inl err \<Rightarrow> Inl (''Error calling Gemini API: '' @ err)
              | Inr reply \<Rightarrow> Inr reply))"

section \<open>file\_handler.py\<close>

definition UPLOAD_DIR :: string where
  "UPLOAD_DIR = ''uploads''"

definition MAX_FILE_SIZE :: nat where
  "MAX_FILE_SIZE = 10 * 1024 * 1024"

text \<open>The set literal of the source. A Python set has no order; the list gives the
  order in which the error message joins its members.\<close>

definition ALLOWED_EXTENSIONS :: "string list" where
  "ALLOWED_EXTENSIONS = [''.jpg'', ''.jpeg'', ''.png'', ''.gif'', ''.webp'']"

text \<open>A FastAPI \<^verbatim>\<open>HTTPException(status_code, detail)\<close>.\<close>

datatype http_exception = HTTPException (status_code: int) (detail: string)

text \<open>An \<^verbatim>\<open>UploadFile\<close>: the client's file name and the bytes of the file.\<close>

record upload_file =
  filename :: string
  file_data :: string

text \<open>\<^verbatim>\<open>str.lower\<close> on the ASCII letters, which are the only characters that
  lower-case to a letter of an allowed extension.\<close>

definition lower_char :: "char \<Rightarrow> char" where
  "lower_char c =
     (case map_of (zip ''ABCDEFGHIJKLMNOPQRSTUVWXYZ'' ''abcdefghijklmnopqrstuvwxyz'') c of
        None \<Rightarrow> c
      | Some d \<Rightarrow> d)"

definition lower :: "string \<Rightarrow> string" where
  "lower s = map lower_char s"

text \<open>Splitting a path at each \<^verbatim>\<open>/\<close>, with the component read so far.\<close>

fun split_path :: "string \<Rightarrow> string \<Rightarrow> string list" where
  "split_path [] cur = [cur]"
| "split_path (c # cs) cur =
     (if c = CHR ''/'' then cur # split_path cs [] else split_path cs (cur @ [c]))"

text \<open>\<^verbatim>\<open>PurePosixPath(p).name\<close>: the last component, where empty components and
  \<^verbatim>\<open>.\<close> components are dropped; empty when none is left.\<close>

definition path_name :: "string \<Rightarrow> string" where
  "path_name p =
     (let comps = filter (\<lambda>c. c \<noteq> [] \<and> c \<noteq> ''.'') (split_path p [])
      in if comps = [] then [] else last comps)"

text \<open>\<^verbatim>\<open>PurePosixPath(p).suffix\<close>: with \<^verbatim>\<open>i = name.rfind('.')\<close>, the text
  \<^verbatim>\<open>name[i:]\<close> when \<^verbatim>\<open>0 < i < len(name) - 1\<close>, and the empty string otherwise.
  Here \<open>ext\<close> is the text after the last dot.\<close>

definition path_suffix :: "string \<Rightarrow> string" where
  "path_suffix p =
     (let name = path_name p;
          ext = rev (takeWhile (\<lambda>c. c \<noteq> CHR ''.'') (rev name))
      in if CHR ''.'' \<in> set name \<and> length ext + 1 < length name \<and> ext \<noteq> []
         then CHR ''.'' # ext else [])"

text \<open>\<^verbatim>\<open>str\<close> of an integer: its decimal digits, with a minus sign when negative.\<close>

fun str_nat :: "nat \<Rightarrow> string" where
  "str_nat n =
     (if n < 10 then [''0123456789'' ! n]
      else str_nat (n div 10) @ [''0123456789'' ! (n mod 10)])"

declare str_nat.simps [simp del]

definition str_int :: "int \<Rightarrow> string" where
  "str_int i = (if i < 0 then CHR ''-'' # str_nat (nat (- i)) else str_nat (nat i))"

text \<open>The directory \<^verbatim>\<open>Path(UPLOAD_DIR) / str(user_id) / str(session_id)\<close>.\<close>

definition session_dir :: "int \<Rightarrow> int \<Rightarrow> string" where
  "session_dir user_id session_id =
     UPLOAD_DIR @ ''/'' @ str_int user_id @ ''/'' @ str_int session_id"

text \<open>
  \<^verbatim>\<open>save_uploaded_image\<close>: the stored path, or the \<^verbatim>\<open>HTTPException\<close> raised,
  together with the files afterwards. The size is what \<^verbatim>\<open>tell()\<close> reads at the end
  of the file. Creating the directory writes no file. A failure of \<^verbatim>\<open>open\<close> or
  \<^verbatim>\<open>write\<close> is taken from the environment and leaves no file.
\<close>

definition save_uploaded_image ::
  "env \<Rightarrow> upload_file \<Rightarrow> int \<Rightarrow> int \<Rightarrow> filesystem \<Rightarrow>
     (http_exception + string) \<times> filesystem" where
  "save_uploaded_image e file user_id session_id fs =
     (let file_extension = lower (path_suffix (filename file)) in
      if file_extension \<notin> set ALLOWED_EXTENSIONS then
        (Inl (HTTPException 400
           ''Invalid file type. Allowed types: .jpg, .jpeg, .png, .gif, .webp''), fs)
      else
        let file_size = length (file_data file) in
        if file_size > MAX_FILE_SIZE then
          (Inl (HTTPException 400 ''File too large. Maximum size: 10.0MB''), fs)
        else
          let unique_filename = uuid4 e @ file_extension;
              user_dir = session_dir user_id session_id;
              file_path = user_dir @ ''/'' @ unique_filename
          in case write_error e of
               Some err \<Rightarrow> (Inl (HTTPException 500 (''Failed to save file: '' @ err)), fs)
             | None \<Rightarrow> (Inr file_path, fs(file_path \<mapsto> file_data file)))"

text \<open>\<^verbatim>\<open>delete_session_images\<close>: \<^verbatim>\<open>shutil.rmtree\<close> of the session's directory, when
  it exists: every file below the directory is gone.\<close>

definition delete_session_images :: "int \<Rightarrow> int \<Rightarrow> filesystem \<Rightarrow> filesystem" where
  "delete_session_images user_id session_id fs =
     (\<lambda>p. if prefix (session_dir user_id session_id @ ''/'') p then None else fs p)"

section \<open>main.py\<close>

text \<open>The authenticated \<^verbatim>\<open>User\<close> that \<^verbatim>\<open>get_current_user\<close> hands to an endpoint.\<close>

record user =
  usr_id :: int
  email :: string
  username :: string

text \<open>A \<^verbatim>\<open>ChatSession\<close> row, with the columns of \<^verbatim>\<open>schemas.ChatSessionResponse\<close>.\<close>

record chat_session =
  sess_id :: int
  sess_user_id :: int
  title :: string
  created_at :: nat
  updated_at :: nat

text \<open>
  Modelled from the spec: \<^verbatim>\<open>models.py\<close>, which declares the tables, their defaults and
  the cascade of the session's messages, is not among the sources. The state is the
  database and the upload directory. The spec gives a message "a creation timestamp
  that defines total order within the session", so the table of messages is the list of
  its rows in creation order, and \<^verbatim>\<open>order_by(Message.created_at)\<close> keeps that order.
  The primary key of a new message is the counter \<open>next_message_id\<close>.
\<close>

record state =
  db_sessions :: "chat_session list"
  db_messages :: "message list"
  next_message_id :: int
  uploads :: filesystem

text \<open>\<^verbatim>\<open>db.query(ChatSession).filter(ChatSession.id == session_id,
  ChatSession.user_id == current_user.id).first()\<close>\<close>

definition query_session :: "state \<Rightarrow> int \<Rightarrow> int \<Rightarrow> chat_session option" where
  "query_session st session_id uid =
     find (\<lambda>s. sess_id s = session_id \<and> sess_user_id s = uid) (db_sessions st)"

text \<open>\<^verbatim>\<open>db.query(Message).filter(Message.session_id == session_id)
  .order_by(Message.created_at).all()\<close>\<close>

definition query_messages :: "state \<Rightarrow> int \<Rightarrow> message list" where
  "query_messages st session_id =
     filter (\<lambda>m. msg_session_id m = session_id) (db_messages st)"

text \<open>\<^verbatim>\<open>get_session_messages\<close>: it reads and changes nothing.\<close>

definition get_session_messages :: "user \<Rightarrow> int \<Rightarrow> state \<Rightarrow> http_exception + message list" where
  "get_session_messages current_user session_id st =
     (case query_session st session_id (usr_id current_user) of
        None \<Rightarrow> Inl (HTTPException 404 ''Session not found'')
      | Some session \<Rightarrow> Inr (query_messages st session_id))"

text \<open>The \<^verbatim>\<open>Handle image upload\<close> step of \<^verbatim>\<open>send_message\<close>: \<^verbatim>\<open>image_path\<close> stays
  \<^verbatim>\<open>None\<close> without an upload.\<close>

definition handle_image_upload ::
  "env \<Rightarrow> upload_file option \<Rightarrow> int \<Rightarrow> int \<Rightarrow> filesystem \<Rightarrow>
     (http_exception + string option) \<times> filesystem" where
  "handle_image_upload e img user_id session_id fs =
     (case img of
        None \<Rightarrow> (Inr None, fs)
      | Some file \<Rightarrow>
          (case save_uploaded_image e file user_id session_id fs of
             (Inl exn, fs') \<Rightarrow> (Inl exn, fs')
           | (Inr p, fs') \<Rightarrow> (Inr (Some p), fs')))"

text \<open>
  \<^verbatim>\<open>send_message\<close>: the assistant's message, or the \<^verbatim>\<open>HTTPException\<close> raised, and
  the state afterwards. The user's message is committed before the model is called;
  the assistant's message and the session's \<^verbatim>\<open>updated_at\<close> are committed together
  after it.
\<close>

definition send_message ::
  "env \<Rightarrow> user \<Rightarrow> int \<Rightarrow> string \<Rightarrow> upload_file option \<Rightarrow> state \<Rightarrow>
     (http_exception + message) \<times> state" where
  "send_message e current_user session_id text img st =
     (case query_session st session_id (usr_id current_user) of
        None \<Rightarrow> (Inl (HTTPException 404 ''Session not found''), st)
      | Some session \<Rightarrow>
          (case handle_image_upload e img (usr_id current_user) session_id (uploads st) of
             (Inl exn, fs') \<Rightarrow> (Inl exn, st\<lparr>uploads := fs'\<rparr>)
           | (Inr ip, fs') \<Rightarrow>
               let user_message =
                     \<lparr>msg_id = next_message_id st, msg_session_id = session_id,
                      role = ''user'', content = text, image_path = ip\<rparr>;
                   st1 = st\<lparr>uploads := fs',
                            db_messages := db_messages st @ [user_message],
                            next_message_id := next_message_id st + 1\<rparr>;
                   previous_messages = query_messages st1 session_id
               in case process_chat_message e (uploads st1) text ip (Some previous_messages) of
                    Inl err \<Rightarrow>
                      (Inl (HTTPException 500 (''LLM processing error: '' @ err)), st1)
                  | Inr assistant_response \<Rightarrow>
                      let assistant_message =
                            \<lparr>msg_id = next_message_id st1, msg_session_id = session_id,
                             role = ''assistant'', content = assistant_response,
                             image_path = None\<rparr>;
                          st2 = st1\<lparr>db_messages := db_messages st1 @ [assistant_message],
                                    next_message_id := next_message_id st1 + 1,
                                    db_sessions :=
                                      map (\<lambda>s. if sess_id s = sess_id session
                                               then s\<lparr>updated_at := utcnow e\<rparr> else s)
                                        (db_sessions st1)\<rparr>
                      in (Inr assistant_message, st2)))"

text \<open>
  Modelled from the spec: \<^verbatim>\<open>db.delete(session)\<close> with \<^verbatim>\<open>db.commit()\<close>, whose cascade
  is declared in the missing \<^verbatim>\<open>models.py\<close>. By the spec a session is "deleted only as
  a whole unit (cascading delete of Messages ...)", and the endpoint's docstring says
  "Delete a chat session and all its messages", so deleting the row deletes the messages
  of the session.
\<close>

definition db_delete_session :: "chat_session \<Rightarrow> state \<Rightarrow> state" where
  "db_delete_session session st =
     st\<lparr>db_sessions := filter (\<lambda>s. sess_id s \<noteq> sess_id session) (db_sessions st),
        db_messages := filter (\<lambda>m. msg_session_id m \<noteq> sess_id session) (db_messages st)\<rparr>"

text \<open>
  \<^verbatim>\<open>delete_chat_session\<close>: the function touches the database only. \<^verbatim>\<open>main.py\<close>
  imports \<^verbatim>\<open>save_uploaded_image\<close> alone from \<^verbatim>\<open>file_handler\<close> and never calls
  \<^verbatim>\<open>delete_session_images\<close>.
\<close>

definition delete_chat_session ::
  "user \<Rightarrow> int \<Rightarrow> state \<Rightarrow> (http_exception + string) \<times> state" where
  "delete_chat_session current_user session_id st =
     (case query_session st session_id (usr_id current_user) of
        None \<Rightarrow> (Inl (HTTPException 404 ''Session not found''), st)
      | Some session \<Rightarrow> (Inr ''Session deleted successfully'', db_delete_session session st))"

section \<open>Example inputs\<close>

text \<open>An environment whose decoder knows one image and whose provider answers.\<close>

definition demo_env :: env where
  "demo_env =
     \<lparr>image_open = (\<lambda>bytes. if bytes = ''PNGDATA'' then Inr (PIL_Image ''pixels'')
                                else Inl ''cannot identify image file''),
      gemini = (\<lambda>history cur. Inr (Response (Inr ''Hello!''))),
      uuid4 = ''3f2b'',
      utcnow = 100,
      write_error = None\<rparr>"

text \<open>Two stored files: one that decodes and one that does not.\<close>

definition demo_files :: filesystem where
  "demo_files =
     [''uploads/1/1/cat.png'' \<mapsto> ''PNGDATA'', ''uploads/1/1/bad.png'' \<mapsto> ''garbage'']"

text \<open>A message of session 1.\<close>

definition mk_message :: "int \<Rightarrow> string \<Rightarrow> string \<Rightarrow> string option \<Rightarrow> message" where
  "mk_message i r c ip =
     \<lparr>msg_id = i, msg_session_id = 1, role = r, content = c, image_path = ip\<rparr>"

text \<open>A provider whose response holds no text: the \<^verbatim>\<open>text\<close> accessor raises.\<close>

definition blocked_env :: env where
  "blocked_env =
     demo_env\<lparr>gemini := (\<lambda>history cur.
        Inr (Response (Inl ''response.text requires a valid Part, but none were returned'')))\<rparr>"

text \<open>A provider whose call raises.\<close>

definition failing_env :: env where
  "failing_env = demo_env\<lparr>gemini := (\<lambda>history cur. Inl ''504 Deadline Exceeded'')\<rparr>"

text \<open>A provider whose response has the empty string as its text.\<close>

definition empty_reply_env :: env where
  "empty_reply_env = demo_env\<lparr>gemini := (\<lambda>history cur. Inr (Response (Inr [])))\<rparr>"

text \<open>Two users; the first owns session 1, which holds two messages.\<close>

definition demo_user :: user where
  "demo_user = \<lparr>usr_id = 1, email = ''ann@example.com'', username = ''ann''\<rparr>"

definition other_user :: user where
  "other_user = \<lparr>usr_id = 2, email = ''bob@example.com'', username = ''bob''\<rparr>"

definition demo_state :: state where
  "demo_state =
     \<lparr>db_sessions = [\<lparr>sess_id = 1, sess_user_id = 1, title = ''Chat'', created_at = 5, updated_at = 5\<rparr>],
      db_messages = [mk_message 1 ''user'' ''hi'' None, mk_message 2 ''assistant'' ''hello'' None],
      next_message_id = 3,
      uploads = Map.empty\<rparr>"

text \<open>An upload with an allowed extension, in upper case.\<close>

definition cat_upload :: upload_file where
  "cat_upload = \<lparr>filename = ''Cat.PNG'', file_data = ''PNGDATA''\<rparr>"

text \<open>The state after the owner of session 1 has sent a message with an image.\<close>

definition state_with_upload :: state where
  "state_with_upload =
     snd (send_message demo_env demo_user 1 ''look'' (Some cat_upload) demo_state)"

section \<open>The Context Builder\<close>

lemma build_loop_map: "build_loop e fs xs acc = acc @ map (history_turn e fs) xs"
  by (induction xs arbitrary: acc) simp_all

lemma build_message_history_snoc:
  "build_message_history e fs (h @ [m]) = map (history_turn e fs) h"
  by (simp add: build_message_history_def build_loop_map)

lemma build_message_history_Nil: "build_message_history e fs [] = []"
  by (simp add: build_message_history_def)

lemma turn_role_history_turn:
  "turn_role (history_turn e fs msg) = (if role msg = ''assistant'' then ''model'' else ''user'')"
  by (simp add: history_turn_def)

lemma parts_history_turn:
  "parts (history_turn e fs msg) =
     add_image_if_present e fs (image_path msg) [] @ [TextPart (content msg)]"
  by (simp add: history_turn_def)

lemma add_image_missing:
  "\<not> os_path_exists fs p \<Longrightarrow> add_image_if_present e fs (Some p) ps = ps"
  by (simp add: add_image_if_present_def)

lemma add_image_load_fails:
  "load_image e fs p = Inl err \<Longrightarrow> add_image_if_present e fs (Some p) ps = ps"
  by (simp add: add_image_if_present_def)

lemma add_image_loads:
  "os_path_exists fs p \<Longrightarrow> load_image e fs p = Inr img \<Longrightarrow>
     add_image_if_present e fs (Some p) ps = ps @ [ImagePart img]"
  by (simp add: add_image_if_present_def os_path_exists_def)

text \<open>
  C1. The history passed to the builder is the session's log with the newest user
  message \<open>m\<close> as its last element (\<^verbatim>\<open>send_message\<close> persists it before it loads the
  log). The history turns are the turns of the messages before \<open>m\<close>, one per message
  and in their order; they do not depend on \<open>m\<close>, and the provider receives them as
  the history and the parts of the current message apart from them. For the log of \<open>u1\<close>, \<open>a1\<close>,
  \<open>u2\<close> and the new \<open>u3\<close> the roles of the three turns are user, model, user. An
  empty or absent history gives no turn.
\<close>

theorem history_excludes_newest:
  "build_message_history e fs (h @ [m]) = map (history_turn e fs) h \<and>
   length (build_message_history e fs (h @ [m])) = length h \<and>
   build_message_history e fs (h @ [m]) = build_message_history e fs (h @ [m']) \<and>
   history_turns e fs (Some (h @ [m])) = map (history_turn e fs) h \<and>
   process_chat_message e fs utext ip (Some (h @ [m])) =
     (case gemini e (map (history_turn e fs) h) (current_parts e fs utext ip) of
        Inl err \<Rightarrow> Inl (''Error calling Gemini API: '' @ err)
      | Inr resp \<Rightarrow>
          (case response_text resp of
             Inl err \<Rightarrow> Inl (''Error calling Gemini API: '' @ err)
           | Inr reply \<Rightarrow> Inr reply)) \<and>
   map turn_role
     (history_turns e fs
        (Some [u1\<lparr>role := ''user''\<rparr>, a1\<lparr>role := ''assistant''\<rparr>,
               u2\<lparr>role := ''user''\<rparr>, u3])) =
     [''user'', ''model'', ''user''] \<and>
   build_message_history e fs [] = [] \<and>
   history_turns e fs (Some []) = [] \<and>
   history_turns e fs None = []"
proof -
  let ?h3 = "[u1\<lparr>role := ''user''\<rparr>, a1\<lparr>role := ''assistant''\<rparr>, u2\<lparr>role := ''user''\<rparr>]"
  have snoc: "\<And>x. build_message_history e fs (h @ [x]) = map (history_turn e fs) h"
    by (rule build_message_history_snoc)
  have ex: "build_message_history e fs (?h3 @ [u3]) = map (history_turn e fs) ?h3"
    by (rule build_message_history_snoc)
  show ?thesis
    using ex
    by (simp add: snoc history_turns_def build_message_history_Nil turn_role_history_turn
          process_chat_message_def)
qed

theorem history_excludes_newest_witness:
  "map turn_role
     (build_message_history demo_env demo_files
        [mk_message 1 ''user'' ''hi'' None, mk_message 2 ''assistant'' ''hello'' None,
         mk_message 3 ''user'' ''look'' (Some ''uploads/1/1/cat.png''),
         mk_message 4 ''user'' ''newest'' None]) = [''user'', ''model'', ''user''] \<and>
   map parts
     (build_message_history demo_env demo_files
        [mk_message 1 ''user'' ''hi'' None, mk_message 2 ''assistant'' ''hello'' None,
         mk_message 3 ''user'' ''look'' (Some ''uploads/1/1/cat.png''),
         mk_message 4 ''user'' ''newest'' None]) =
     [[TextPart ''hi''], [TextPart ''hello''],
      [ImagePart (PIL_Image ''pixels''), TextPart ''look'']]"
  using history_excludes_newest [of demo_env demo_files
        "[mk_message 1 ''user'' ''hi'' None, mk_message 2 ''assistant'' ''hello'' None,
          mk_message 3 ''user'' ''look'' (Some ''uploads/1/1/cat.png'')]"
        "mk_message 4 ''user'' ''newest'' None"]
  by (simp add: history_turn_def mk_message_def add_image_if_present_def os_path_exists_def
       load_image_def demo_files_def demo_env_def)

text \<open>
  C8. The role of a history turn is \<^verbatim>\<open>model\<close> exactly when the role of its message is
  \<^verbatim>\<open>assistant\<close>, and \<^verbatim>\<open>user\<close> when the role of its message is \<^verbatim>\<open>user\<close>. The
  mapping is fixed: the role of the turn is the same under any environment and any
  files, which are all that a call of the builder takes besides the messages.
\<close>

theorem role_mapping_fixed:
  assumes "i < length h"
  shows "(turn_role (build_message_history e fs (h @ [m]) ! i) = ''model'' \<longleftrightarrow>
            role (h ! i) = ''assistant'') \<and>
         (role (h ! i) = ''user'' \<longrightarrow>
            turn_role (build_message_history e fs (h @ [m]) ! i) = ''user'') \<and>
         turn_role (build_message_history e fs (h @ [m]) ! i) =
           turn_role (build_message_history e' fs' (h @ [m]) ! i)"
  using assms by (simp add: build_message_history_snoc turn_role_history_turn)

theorem role_mapping_fixed_witness:
  "turn_role (build_message_history demo_env demo_files
      [mk_message 1 ''user'' ''hi'' None, mk_message 2 ''assistant'' ''hello'' None,
       mk_message 3 ''user'' ''newest'' None] ! 1) = ''model'' \<and>
   turn_role (build_message_history demo_env demo_files
      [mk_message 1 ''user'' ''hi'' None, mk_message 2 ''assistant'' ''hello'' None,
       mk_message 3 ''user'' ''newest'' None] ! 0) = ''user''"
  using role_mapping_fixed [of 1 "[mk_message 1 ''user'' ''hi'' None, mk_message 2 ''assistant'' ''hello'' None]"
          demo_env demo_files "mk_message 3 ''user'' ''newest'' None" demo_env demo_files]
        role_mapping_fixed [of 0 "[mk_message 1 ''user'' ''hi'' None, mk_message 2 ''assistant'' ''hello'' None]"
          demo_env demo_files "mk_message 3 ''user'' ''newest'' None" demo_env demo_files]
  by (simp add: mk_message_def)

text \<open>
  C10. A history message whose role is anything but \<^verbatim>\<open>assistant\<close> (\<^verbatim>\<open>user\<close>, or a
  role that is neither) still gets its turn, with role \<^verbatim>\<open>user\<close> and its text as the
  last part: the builder is total, and it yields one turn for each message before the
  newest, whatever the roles.
\<close>

theorem other_roles_are_user:
  assumes "i < length h" and "role (h ! i) \<noteq> ''assistant''"
  shows "length (build_message_history e fs (h @ [m])) = length h \<and>
         turn_role (build_message_history e fs (h @ [m]) ! i) = ''user'' \<and>
         last (parts (build_message_history e fs (h @ [m]) ! i)) = TextPart (content (h ! i))"
  using assms
  by (simp add: build_message_history_snoc turn_role_history_turn parts_history_turn)

theorem other_roles_are_user_witness:
  "length (build_message_history demo_env demo_files
      [mk_message 1 ''system'' ''be brief'' None, mk_message 2 '''' ''no role'' None,
       mk_message 3 ''user'' ''newest'' None]) = 2 \<and>
   build_message_history demo_env demo_files
      [mk_message 1 ''system'' ''be brief'' None, mk_message 2 '''' ''no role'' None,
       mk_message 3 ''user'' ''newest'' None] ! 0 =
     \<lparr>turn_role = ''user'', parts = [TextPart ''be brief'']\<rparr>"
proof -
  let ?h = "[mk_message 1 ''system'' ''be brief'' None, mk_message 2 '''' ''no role'' None]"
  let ?m = "mk_message 3 ''user'' ''newest'' None"
  have i: "0 < length ?h" by simp
  have r: "role (?h ! 0) \<noteq> ''assistant''" by (simp add: mk_message_def)
  from other_roles_are_user [OF i r, of demo_env demo_files ?m]
  show ?thesis
    by (simp add: build_message_history_def history_turn_def mk_message_def add_image_if_present_def)
qed

text \<open>
  C6. For a history message with an image reference \<open>p\<close>, and for a current message
  with the same reference: when the file is missing or its load raises, the parts are
  the text alone, and the call is the one made without an image (the failure to load
  raises nothing); when the image loads, the parts are the image followed by the text;
  in every case the text is the last part.
\<close>

theorem image_best_effort:
  assumes "i < length h" and "image_path (h ! i) = Some p"
  shows "(\<not> os_path_exists fs p \<or> isl (load_image e fs p) \<longrightarrow>
            parts (build_message_history e fs (h @ [m]) ! i) = [TextPart (content (h ! i))] \<and>
            current_parts e fs utext (Some p) = [TextPart utext] \<and>
            process_chat_message e fs utext (Some p) ch =
              process_chat_message e fs utext None ch) \<and>
         (os_path_exists fs p \<and> load_image e fs p = Inr img \<longrightarrow>
            parts (build_message_history e fs (h @ [m]) ! i) =
              [ImagePart img, TextPart (content (h ! i))] \<and>
            current_parts e fs utext (Some p) = [ImagePart img, TextPart utext]) \<and>
         last (parts (build_message_history e fs (h @ [m]) ! i)) = TextPart (content (h ! i)) \<and>
         last (current_parts e fs utext (Some p)) = TextPart utext"
proof -
  have t: "parts (build_message_history e fs (h @ [m]) ! i) =
             add_image_if_present e fs (Some p) [] @ [TextPart (content (h ! i))]"
    using assms by (simp add: build_message_history_snoc parts_history_turn)
  have c: "\<And>ip. current_parts e fs utext ip = add_image_if_present e fs ip [] @ [TextPart utext]"
    by (simp add: current_parts_def)
  have none: "add_image_if_present e fs None [] = []"
    by (simp add: add_image_if_present_def)
  have skip: "\<not> os_path_exists fs p \<or> isl (load_image e fs p) \<Longrightarrow>
                add_image_if_present e fs (Some p) [] = []"
    by (auto simp: add_image_missing isl_def add_image_load_fails)
  have skip_call: "\<not> os_path_exists fs p \<or> isl (load_image e fs p) \<Longrightarrow>
                process_chat_message e fs utext (Some p) ch = process_chat_message e fs utext None ch"
    using skip by (simp add: process_chat_message_def c none)
  have load: "os_path_exists fs p \<and> load_image e fs p = Inr img \<Longrightarrow>
                add_image_if_present e fs (Some p) [] = [ImagePart img]"
    by (simp add: add_image_loads)
  show ?thesis
    using skip skip_call load by (simp add: t c)
qed

theorem image_best_effort_witness:
  "parts (build_message_history demo_env demo_files
      [mk_message 1 ''user'' ''a'' (Some ''uploads/1/1/gone.png''),
       mk_message 2 ''user'' ''b'' (Some ''uploads/1/1/bad.png''),
       mk_message 3 ''user'' ''c'' (Some ''uploads/1/1/cat.png''),
       mk_message 4 ''user'' ''newest'' None] ! 0) = [TextPart ''a''] \<and>
   parts (build_message_history demo_env demo_files
      [mk_message 1 ''user'' ''a'' (Some ''uploads/1/1/gone.png''),
       mk_message 2 ''user'' ''b'' (Some ''uploads/1/1/bad.png''),
       mk_message 3 ''user'' ''c'' (Some ''uploads/1/1/cat.png''),
       mk_message 4 ''user'' ''newest'' None] ! 1) = [TextPart ''b''] \<and>
   parts (build_message_history demo_env demo_files
      [mk_message 1 ''user'' ''a'' (Some ''uploads/1/1/gone.png''),
       mk_message 2 ''user'' ''b'' (Some ''uploads/1/1/bad.png''),
       mk_message 3 ''user'' ''c'' (Some ''uploads/1/1/cat.png''),
       mk_message 4 ''user'' ''newest'' None] ! 2) = [ImagePart (PIL_Image ''pixels''), TextPart ''c''] \<and>
   current_parts demo_env demo_files ''d'' (Some ''uploads/1/1/gone.png'') = [TextPart ''d''] \<and>
   current_parts demo_env demo_files ''d'' (Some ''uploads/1/1/cat.png'') = [ImagePart (PIL_Image ''pixels''), TextPart ''d''] \<and>
   process_chat_message demo_env demo_files ''d'' (Some ''uploads/1/1/bad.png'') None = Inr ''Hello!''"
proof -
  let ?h = "[mk_message 1 ''user'' ''a'' (Some ''uploads/1/1/gone.png''),
       mk_message 2 ''user'' ''b'' (Some ''uploads/1/1/bad.png''),
       mk_message 3 ''user'' ''c'' (Some ''uploads/1/1/cat.png'')]"
  let ?m = "mk_message 4 ''user'' ''newest'' None"
  have gone: "\<not> os_path_exists demo_files ''uploads/1/1/gone.png''"
    by (simp add: os_path_exists_def demo_files_def)
  have bad: "isl (load_image demo_env demo_files ''uploads/1/1/bad.png'')"
    by (simp add: load_image_def demo_files_def demo_env_def)
  have cat: "os_path_exists demo_files ''uploads/1/1/cat.png'' \<and>
             load_image demo_env demo_files ''uploads/1/1/cat.png'' = Inr (PIL_Image ''pixels'')"
    by (simp add: os_path_exists_def load_image_def demo_files_def demo_env_def)
  have none: "process_chat_message demo_env demo_files ''d'' None None = Inr ''Hello!''"
    by (simp add: process_chat_message_def demo_env_def)
  have i0: "(0::nat) < length ?h" and i1: "(1::nat) < length ?h" and i2: "(2::nat) < length ?h"
    by simp_all
  have p0: "image_path (?h ! 0) = Some ''uploads/1/1/gone.png''"
   and p1: "image_path (?h ! 1) = Some ''uploads/1/1/bad.png''"
   and p2: "image_path (?h ! 2) = Some ''uploads/1/1/cat.png''"
    by (simp_all add: mk_message_def)
  from image_best_effort [OF i0 p0, where fs = demo_files and e = demo_env and m = "?m"
         and utext = "''d''" and ch = None and img = "PIL_Image ''pixels''"]
       image_best_effort [OF i1 p1, where fs = demo_files and e = demo_env and m = "?m"
         and utext = "''d''" and ch = None and img = "PIL_Image ''pixels''"]
       image_best_effort [OF i2 p2, where fs = demo_files and e = demo_env and m = "?m"
         and utext = "''d''" and ch = None and img = "PIL_Image ''pixels''"]
       gone bad cat none
  show ?thesis
    by (simp add: mk_message_def)
qed

section \<open>The Turn Dispatcher\<close>

text \<open>
  C9, as stated, fails: the dispatcher returns whatever the \<^verbatim>\<open>text\<close> accessor of the
  response returns, and it does not look at the string. Here the accessor returns the
  empty string, and the empty string is the reply.
\<close>

theorem empty_reply_counterexample:
  "process_chat_message empty_reply_env demo_files ''hello'' None None = Inr []"
  by (simp add: process_chat_message_def empty_reply_env_def demo_env_def)

text \<open>
  C9, amended. The reply is the string that the \<^verbatim>\<open>text\<close> accessor of the provider's
  response returns (whatever it is). When the accessor raises, as it does for a response
  without text, or when the provider's call raises, the dispatcher raises an
  \<^verbatim>\<open>Exception\<close> whose message is \<^verbatim>\<open>Error calling Gemini API: \<close> followed by the
  \<^verbatim>\<open>str\<close> of the cause. Every failure of the dispatcher has that form.
\<close>

theorem dispatch_outcomes:
  "(gemini e (history_turns e fs ch) (current_parts e fs utext ip) = Inr resp \<and>
      response_text resp = Inr reply \<longrightarrow>
        process_chat_message e fs utext ip ch = Inr reply) \<and>
   (gemini e (history_turns e fs ch) (current_parts e fs utext ip) = Inr resp \<and>
      response_text resp = Inl cause \<longrightarrow>
        process_chat_message e fs utext ip ch = Inl (''Error calling Gemini API: '' @ cause)) \<and>
   (gemini e (history_turns e fs ch) (current_parts e fs utext ip) = Inl cause \<longrightarrow>
        process_chat_message e fs utext ip ch = Inl (''Error calling Gemini API: '' @ cause)) \<and>
   (process_chat_message e fs utext ip ch = Inl err \<longrightarrow>
        (\<exists>cause. err = ''Error calling Gemini API: '' @ cause))"
  by (auto simp: process_chat_message_def Let_def split: sum.splits)

theorem dispatch_outcomes_witness:
  "process_chat_message demo_env demo_files ''hello'' None None = Inr ''Hello!'' \<and>
   process_chat_message blocked_env demo_files ''hello'' None None =
     Inl ''Error calling Gemini API: response.text requires a valid Part, but none were returned'' \<and>
   process_chat_message failing_env demo_files ''hello'' None None =
     Inl ''Error calling Gemini API: 504 Deadline Exceeded''"
proof -
  have a: "gemini demo_env (history_turns demo_env demo_files None)
             (current_parts demo_env demo_files ''hello'' None) = Inr (Response (Inr ''Hello!'')) \<and>
           response_text (Response (Inr ''Hello!'')) = Inr ''Hello!''"
    by (simp add: demo_env_def)
  have b: "gemini blocked_env (history_turns blocked_env demo_files None)
             (current_parts blocked_env demo_files ''hello'' None) =
             Inr (Response (Inl ''response.text requires a valid Part, but none were returned'')) \<and>
           response_text
             (Response (Inl ''response.text requires a valid Part, but none were returned'')) =
             Inl ''response.text requires a valid Part, but none were returned''"
    by (simp add: blocked_env_def demo_env_def)
  have c: "gemini failing_env (history_turns failing_env demo_files None)
             (current_parts failing_env demo_files ''hello'' None) = Inl ''504 Deadline Exceeded''"
    by (simp add: failing_env_def demo_env_def)
  from dispatch_outcomes [where e = demo_env and fs = demo_files and ch = None
         and utext = "''hello''" and ip = None and resp = "Response (Inr ''Hello!'')"
         and reply = "''Hello!''"]
       dispatch_outcomes [where e = blocked_env and fs = demo_files and ch = None
         and utext = "''hello''" and ip = None
         and resp = "Response (Inl ''response.text requires a valid Part, but none were returned'')"
         and cause = "''response.text requires a valid Part, but none were returned''"]
       dispatch_outcomes [where e = failing_env and fs = demo_files and ch = None
         and utext = "''hello''" and ip = None and cause = "''504 Deadline Exceeded''"]
       a b c
  show ?thesis by simp
qed
section \<open>The Session Orchestrator\<close>

lemma query_session_None:
  "(\<forall>s \<in> set (db_sessions st). sess_id s = sid \<longrightarrow> sess_user_id s \<noteq> uid) \<Longrightarrow>
     query_session st sid uid = None"
  by (auto simp: query_session_def find_None_iff)

lemma query_session_Some:
  "query_session st sid uid = Some s \<Longrightarrow> sess_id s = sid \<and> sess_user_id s = uid \<and> s \<in> set (db_sessions st)"
  by (auto simp: query_session_def find_Some_iff)

lemma query_messages_snoc:
  "query_messages (st\<lparr>db_messages := db_messages st @ ms\<rparr>) sid =
     query_messages st sid @ filter (\<lambda>m. msg_session_id m = sid) ms"
  by (simp add: query_messages_def)

text \<open>
  C4. When no session with the given id belongs to the caller, because no session has
  the id or because the session with the id belongs to another user, then sending a
  message, listing the messages and deleting the session all fail with the same
  \<^verbatim>\<open>HTTPException(404, "Session not found")\<close> and leave the state as it was: the
  answer is the same in both cases.
\<close>

theorem not_found_indistinguishable:
  assumes "\<forall>s \<in> set (db_sessions st). sess_id s = sid \<longrightarrow> sess_user_id s \<noteq> usr_id u"
  shows "send_message e u sid utext img st = (Inl (HTTPException 404 ''Session not found''), st) \<and>
         get_session_messages u sid st = Inl (HTTPException 404 ''Session not found'') \<and>
         delete_chat_session u sid st = (Inl (HTTPException 404 ''Session not found''), st)"
  using query_session_None [OF assms]
  by (simp add: send_message_def get_session_messages_def delete_chat_session_def)

theorem not_found_indistinguishable_witness:
  "send_message demo_env other_user 1 ''hi'' None demo_state =
     (Inl (HTTPException 404 ''Session not found''), demo_state) \<and>
   send_message demo_env other_user 7 ''hi'' None demo_state =
     (Inl (HTTPException 404 ''Session not found''), demo_state) \<and>
   get_session_messages other_user 1 demo_state = get_session_messages other_user 7 demo_state \<and>
   delete_chat_session other_user 1 demo_state = delete_chat_session other_user 7 demo_state \<and>
   get_session_messages demo_user 1 demo_state =
     Inr [mk_message 1 ''user'' ''hi'' None, mk_message 2 ''assistant'' ''hello'' None]"
proof -
  have foreign: "\<forall>s \<in> set (db_sessions demo_state). sess_id s = 1 \<longrightarrow> sess_user_id s \<noteq> usr_id other_user"
    by (simp add: demo_state_def other_user_def)
  have absent: "\<forall>s \<in> set (db_sessions demo_state). sess_id s = 7 \<longrightarrow> sess_user_id s \<noteq> usr_id other_user"
    by (simp add: demo_state_def other_user_def)
  have own: "get_session_messages demo_user 1 demo_state =
     Inr [mk_message 1 ''user'' ''hi'' None, mk_message 2 ''assistant'' ''hello'' None]"
    by (simp add: get_session_messages_def query_session_def query_messages_def demo_state_def
          demo_user_def mk_message_def)
  from not_found_indistinguishable [OF foreign, of demo_env "''hi''" None]
       not_found_indistinguishable [OF absent, of demo_env "''hi''" None] own
  show ?thesis by simp
qed

lemma save_uploaded_image_invalid:
  assumes "lower (path_suffix (filename f)) \<notin> set ALLOWED_EXTENSIONS \<or>
           length (file_data f) > MAX_FILE_SIZE"
  shows "\<exists>d. save_uploaded_image e f uid sid fs = (Inl (HTTPException 400 d), fs)"
  using assms by (auto simp: save_uploaded_image_def Let_def)

text \<open>
  C3. For an upload whose lower-cased extension is not in the allow-list, or whose size
  exceeds \<open>MAX_FILE_SIZE\<close> (10 MB), \<^verbatim>\<open>save_uploaded_image\<close> raises an
  \<^verbatim>\<open>HTTPException\<close> with status 400 and writes no file; \<^verbatim>\<open>send_message\<close> fails and
  returns the state unchanged (no message, no blob), with status 400 whenever the
  request has passed the ownership check; listing the messages afterwards gives what
  it gave before.
\<close>

theorem invalid_image_rejected:
  assumes "lower (path_suffix (filename f)) \<notin> set ALLOWED_EXTENSIONS \<or>
           length (file_data f) > MAX_FILE_SIZE"
  shows "(\<exists>d. save_uploaded_image e f (usr_id u) sid (uploads st) =
                 (Inl (HTTPException 400 d), uploads st)) \<and>
         (\<exists>exn. send_message e u sid utext (Some f) st = (Inl exn, st) \<and>
                 (query_session st sid (usr_id u) \<noteq> None \<longrightarrow> status_code exn = 400)) \<and>
         get_session_messages u sid (snd (send_message e u sid utext (Some f) st)) =
           get_session_messages u sid st"
proof -
  obtain d where d: "save_uploaded_image e f (usr_id u) sid (uploads st) =
                       (Inl (HTTPException 400 d), uploads st)"
    using save_uploaded_image_invalid [OF assms] by blast
  have "\<exists>exn. send_message e u sid utext (Some f) st = (Inl exn, st) \<and>
                 (query_session st sid (usr_id u) \<noteq> None \<longrightarrow> status_code exn = 400)"
    by (cases "query_session st sid (usr_id u)")
       (simp_all add: send_message_def handle_image_upload_def d)
  then show ?thesis using d by auto
qed

theorem invalid_image_rejected_witness:
  "(\<exists>exn. send_message demo_env demo_user 1 ''look''
             (Some \<lparr>filename = ''notes.exe'', file_data = ''MZ''\<rparr>) demo_state =
             (Inl exn, demo_state) \<and> status_code exn = 400) \<and>
   (\<exists>exn. send_message demo_env demo_user 1 ''look''
             (Some \<lparr>filename = ''big.png'', file_data = replicate 10485761 CHR ''x''\<rparr>) demo_state =
             (Inl exn, demo_state) \<and> status_code exn = 400)"
proof -
  have ext: "lower (path_suffix (filename \<lparr>filename = ''notes.exe'', file_data = ''MZ''\<rparr>))
               \<notin> set ALLOWED_EXTENSIONS \<or>
             length (file_data \<lparr>filename = ''notes.exe'', file_data = ''MZ''\<rparr>) > MAX_FILE_SIZE"
    by (simp add: lower_def path_suffix_def path_name_def lower_char_def ALLOWED_EXTENSIONS_def)
  have big: "lower (path_suffix (filename \<lparr>filename = ''big.png'',
                 file_data = replicate 10485761 CHR ''x''\<rparr>)) \<notin> set ALLOWED_EXTENSIONS \<or>
             length (file_data \<lparr>filename = ''big.png'',
                 file_data = replicate 10485761 CHR ''x''\<rparr>) > MAX_FILE_SIZE"
    by (simp add: MAX_FILE_SIZE_def)
  have owned: "query_session demo_state 1 (usr_id demo_user) \<noteq> None"
    by (simp add: query_session_def demo_state_def demo_user_def)
  from invalid_image_rejected [OF ext, of demo_env demo_user 1 demo_state "''look''"]
       invalid_image_rejected [OF big, of demo_env demo_user 1 demo_state "''look''"] owned
  show ?thesis by simp
qed

lemma find_map_same:
  "(\<And>x. P (f x) = P x) \<Longrightarrow> find P (map f xs) = map_option f (find P xs)"
  by (induction xs) simp_all

text \<open>
  C2. A request that has passed the ownership check and the image step, and whose model
  call fails: the user's message \<open>um\<close> has been appended to the log before the call,
  \<^verbatim>\<open>send_message\<close> raises \<^verbatim>\<open>HTTPException(500, "LLM processing error: ...")\<close> with
  the dispatcher's message, and in the state left behind the log is the old log followed
  by \<open>um\<close> alone: listing the session shows \<open>um\<close> last, and no assistant message.
\<close>

theorem provider_failure_keeps_user_message:
  assumes owned: "query_session st sid (usr_id u) = Some s"
    and upload: "handle_image_upload e img (usr_id u) sid (uploads st) = (Inr ip, fs')"
    and um: "um = \<lparr>msg_id = next_message_id st, msg_session_id = sid, role = ''user'',
                     content = utext, image_path = ip\<rparr>"
    and fails: "process_chat_message e fs' utext ip (Some (query_messages st sid @ [um])) = Inl err"
  shows "\<exists>st'. send_message e u sid utext img st =
                  (Inl (HTTPException 500 (''LLM processing error: '' @ err)), st') \<and>
               db_messages st' = db_messages st @ [um] \<and>
               db_sessions st' = db_sessions st \<and>
               get_session_messages u sid st' = Inr (query_messages st sid @ [um])"
proof -
  let ?st1 = "st\<lparr>uploads := fs', db_messages := db_messages st @ [um],
                 next_message_id := next_message_id st + 1\<rparr>"
  have q: "query_messages ?st1 sid = query_messages st sid @ [um]"
    by (simp add: query_messages_def um)
  have "send_message e u sid utext img st =
          (Inl (HTTPException 500 (''LLM processing error: '' @ err)), ?st1)"
    using owned upload fails q
    by (simp add: send_message_def Let_def um [symmetric])
  moreover have "get_session_messages u sid ?st1 = Inr (query_messages st sid @ [um])"
    using owned q by (simp add: get_session_messages_def query_session_def)
  ultimately show ?thesis by simp
qed

text \<open>
  C7. A call of \<^verbatim>\<open>send_message\<close> that returns the assistant's message \<open>am\<close>: the log
  is the old log followed by the user's message \<open>um\<close> and then \<open>am\<close>, and nothing
  else; \<open>am\<close> has role \<^verbatim>\<open>assistant\<close>, belongs to the session, has no image, and its
  content is the reply that the dispatcher returned for this request; the session's row
  carries the reading of the clock as its \<^verbatim>\<open>updated_at\<close>.
\<close>

theorem assistant_message_appended:
  assumes "send_message e u sid utext img st = (Inr am, st')"
  shows "\<exists>um s. query_session st sid (usr_id u) = Some s \<and>
           db_messages st' = db_messages st @ [um, am] \<and>
           query_messages st' sid = query_messages st sid @ [um, am] \<and>
           role um = ''user'' \<and> content um = utext \<and>
           role am = ''assistant'' \<and> msg_session_id am = sid \<and> image_path am = None \<and>
           process_chat_message e (uploads st') utext (image_path um)
             (Some (query_messages st sid @ [um])) = Inr (content am) \<and>
           query_session st' sid (usr_id u) = Some (s\<lparr>updated_at := utcnow e\<rparr>)"
proof -
  from assms obtain s where owned: "query_session st sid (usr_id u) = Some s"
    by (auto simp: send_message_def split: option.splits)
  from assms owned obtain ip fs' where
    upload: "handle_image_upload e img (usr_id u) sid (uploads st) = (Inr ip, fs')"
    by (auto simp: send_message_def split: prod.splits sum.splits)
  define um where "um = \<lparr>msg_id = next_message_id st, msg_session_id = sid, role = ''user'',
                     content = utext, image_path = ip\<rparr>"
  let ?st1 = "st\<lparr>uploads := fs', db_messages := db_messages st @ [um],
                 next_message_id := next_message_id st + 1\<rparr>"
  have q: "query_messages ?st1 sid = query_messages st sid @ [um]"
    by (simp add: query_messages_def um_def)
  from assms owned upload q obtain reply where
    ok: "process_chat_message e fs' utext ip (Some (query_messages st sid @ [um])) = Inr reply"
    by (auto simp: send_message_def Let_def um_def [symmetric] split: sum.splits)
  let ?am = "\<lparr>msg_id = next_message_id st + 1, msg_session_id = sid,
               role = ''assistant'', content = reply, image_path = None\<rparr>"
  let ?f = "\<lambda>x. if sess_id x = sess_id s then x\<lparr>updated_at := utcnow e\<rparr> else x"
  let ?st2 = "?st1\<lparr>db_messages := db_messages ?st1 @ [?am],
                   next_message_id := next_message_id ?st1 + 1,
                   db_sessions := map ?f (db_sessions ?st1)\<rparr>"
  have res: "send_message e u sid utext img st = (Inr ?am, ?st2)"
    using owned upload ok q
    by (simp add: send_message_def Let_def um_def [symmetric])
  have both: "(Inr ?am, ?st2) = (Inr am :: http_exception + message, st')"
    by (rule trans [OF res [symmetric] assms])
  from both have both': "?am = am \<and> ?st2 = st'"
    by blast
  have am: "am = ?am"
    by (rule sym [OF conjunct1 [OF both']])
  have st': "st' = ?st2"
    by (rule sym [OF conjunct2 [OF both']])
  have sid: "sess_id s = sid" "sess_user_id s = usr_id u"
    using query_session_Some [OF owned] by simp_all
  have "find (\<lambda>x. sess_id x = sid \<and> sess_user_id x = usr_id u) (map ?f (db_sessions st)) =
          map_option ?f (find (\<lambda>x. sess_id x = sid \<and> sess_user_id x = usr_id u) (db_sessions st))"
    by (rule find_map_same) simp
  then have upd: "query_session st' sid (usr_id u) = Some (s\<lparr>updated_at := utcnow e\<rparr>)"
    using owned by (simp add: query_session_def st')
  have "db_messages st' = db_messages st @ [um, ?am]"
    by (simp add: st')
  moreover have "query_messages st' sid = query_messages st sid @ [um, ?am]"
    by (simp add: st' query_messages_def um_def)
  moreover have "uploads st' = fs'" by (simp add: st')
  ultimately show ?thesis
    using owned ok upd by (simp add: am um_def)
qed

lemma cat_upload_stored:
  "handle_image_upload e (Some cat_upload) 1 1 fs =
     (if write_error e = None
      then (Inr (Some (''uploads/1/1/'' @ uuid4 e @ ''.png'')),
            fs(''uploads/1/1/'' @ uuid4 e @ ''.png'' \<mapsto> ''PNGDATA''))
      else (Inl (HTTPException 500 (''Failed to save file: '' @ the (write_error e))), fs))"
  by (auto simp: handle_image_upload_def save_uploaded_image_def lower_def lower_char_def
      path_suffix_def path_name_def ALLOWED_EXTENSIONS_def MAX_FILE_SIZE_def session_dir_def
      UPLOAD_DIR_def str_int_def str_nat.simps cat_upload_def Let_def)

theorem provider_failure_keeps_user_message_witness:
  "\<exists>st'. send_message failing_env demo_user 1 ''again'' (Some cat_upload) demo_state =
           (Inl (HTTPException 500
              ''LLM processing error: Error calling Gemini API: 504 Deadline Exceeded''), st') \<and>
         db_messages st' =
           db_messages demo_state @
             [\<lparr>msg_id = 3, msg_session_id = 1, role = ''user'', content = ''again'',
               image_path = Some ''uploads/1/1/3f2b.png''\<rparr>] \<and>
         get_session_messages demo_user 1 st' =
           Inr [mk_message 1 ''user'' ''hi'' None, mk_message 2 ''assistant'' ''hello'' None,
                mk_message 3 ''user'' ''again'' (Some ''uploads/1/1/3f2b.png'')]"
proof -
  let ?um = "\<lparr>msg_id = 3, msg_session_id = 1, role = ''user'', content = ''again'',
               image_path = Some ''uploads/1/1/3f2b.png''\<rparr>"
  let ?fs = "[''uploads/1/1/3f2b.png'' \<mapsto> ''PNGDATA'']"
  have owned: "query_session demo_state 1 (usr_id demo_user) =
                 Some \<lparr>sess_id = 1, sess_user_id = 1, title = ''Chat'', created_at = 5, updated_at = 5\<rparr>"
    by (simp add: query_session_def demo_state_def demo_user_def)
  have upload: "handle_image_upload failing_env (Some cat_upload) (usr_id demo_user) 1
                  (uploads demo_state) = (Inr (Some ''uploads/1/1/3f2b.png''), ?fs)"
    by (simp add: cat_upload_stored demo_user_def demo_state_def failing_env_def demo_env_def)
  have um: "?um = \<lparr>msg_id = next_message_id demo_state, msg_session_id = 1, role = ''user'',
                     content = ''again'', image_path = Some ''uploads/1/1/3f2b.png''\<rparr>"
    by (simp add: demo_state_def)
  have fails: "process_chat_message failing_env ?fs ''again'' (Some ''uploads/1/1/3f2b.png'')
                 (Some (query_messages demo_state 1 @ [?um])) =
               Inl ''Error calling Gemini API: 504 Deadline Exceeded''"
    by (simp add: process_chat_message_def failing_env_def demo_env_def)
  from provider_failure_keeps_user_message [OF owned upload um fails]
  show ?thesis
    by (simp add: query_messages_def demo_state_def mk_message_def) blast
qed

theorem assistant_message_appended_witness:
  "\<exists>um s. query_session demo_state 1 (usr_id demo_user) = Some s \<and>
     db_messages (snd (send_message demo_env demo_user 1 ''again'' (Some cat_upload) demo_state)) =
       db_messages demo_state @ [um, mk_message 4 ''assistant'' ''Hello!'' None] \<and>
     role um = ''user'' \<and> content um = ''again'' \<and>
     query_session (snd (send_message demo_env demo_user 1 ''again'' (Some cat_upload) demo_state))
       1 (usr_id demo_user) = Some (s\<lparr>updated_at := 100\<rparr>)"
proof -
  have run: "send_message demo_env demo_user 1 ''again'' (Some cat_upload) demo_state =
               (Inr (mk_message 4 ''assistant'' ''Hello!'' None),
                snd (send_message demo_env demo_user 1 ''again'' (Some cat_upload) demo_state))"
    by (simp add: send_message_def cat_upload_stored query_session_def query_messages_def
          process_chat_message_def demo_env_def demo_user_def demo_state_def mk_message_def Let_def)
  have now: "utcnow demo_env = 100"
    by (simp add: demo_env_def)
  from assistant_message_appended [OF run] now
  show ?thesis
    by auto
qed

lemma delete_chat_session_uploads:
  "uploads (snd (delete_chat_session u sid st)) = uploads st"
  by (simp add: delete_chat_session_def db_delete_session_def split: option.split)

lemma state_with_upload_eq:
  "state_with_upload =
     \<lparr>db_sessions = [\<lparr>sess_id = 1, sess_user_id = 1, title = ''Chat'', created_at = 5, updated_at = 100\<rparr>],
      db_messages = [mk_message 1 ''user'' ''hi'' None, mk_message 2 ''assistant'' ''hello'' None,
                     mk_message 3 ''user'' ''look'' (Some ''uploads/1/1/3f2b.png''),
                     mk_message 4 ''assistant'' ''Hello!'' None],
      next_message_id = 5,
      uploads = [''uploads/1/1/3f2b.png'' \<mapsto> ''PNGDATA'']\<rparr>"
  by (simp add: state_with_upload_def send_message_def cat_upload_stored query_session_def query_messages_def
          process_chat_message_def demo_env_def demo_user_def demo_state_def mk_message_def Let_def)

text \<open>
  C5, at a failing input. The owner of session 1 has sent a message with an image, which
  is stored under \<^verbatim>\<open>uploads/1/1/\<close>, and deletes the session. The session and its
  messages are gone and listing the session gives 404, but the blob is still in the
  upload directory: \<^verbatim>\<open>delete_chat_session\<close> never touches the files.
  \<^verbatim>\<open>delete_session_images\<close>, which it does not call, would have removed the blob.
\<close>

theorem delete_session_leaves_blob:
  "uploads state_with_upload ''uploads/1/1/3f2b.png'' = Some ''PNGDATA'' \<and>
   image_path (db_messages state_with_upload ! 2) = Some ''uploads/1/1/3f2b.png'' \<and>
   fst (delete_chat_session demo_user 1 state_with_upload) = Inr ''Session deleted successfully'' \<and>
   db_sessions (snd (delete_chat_session demo_user 1 state_with_upload)) = [] \<and>
   db_messages (snd (delete_chat_session demo_user 1 state_with_upload)) = [] \<and>
   get_session_messages demo_user 1 (snd (delete_chat_session demo_user 1 state_with_upload)) =
     Inl (HTTPException 404 ''Session not found'') \<and>
   uploads (snd (delete_chat_session demo_user 1 state_with_upload)) ''uploads/1/1/3f2b.png'' =
     Some ''PNGDATA'' \<and>
   delete_session_images 1 1 (uploads state_with_upload) ''uploads/1/1/3f2b.png'' = None"
  by (simp add: state_with_upload_eq delete_chat_session_def db_delete_session_def
        get_session_messages_def
        query_session_def demo_user_def mk_message_def delete_session_images_def
        session_dir_def UPLOAD_DIR_def str_int_def str_nat.simps)

end
